theory Spec2Isabelle
  imports Main "HOL-Library.Sublist"
begin

section \<open>WriteSpecTool: the tool that drafts a program specification\<close>

text \<open>
  The development embeds \<^verbatim>\<open>WriteSpecTool._execute\<close> of
  \<^verbatim>\<open>superagi/tools/code/write_spec.py\<close>. The method fills a prompt template,
  asks the token counter for the size of the prompt and the limit of the model, calls the
  chat completion of the language model, hands the answer to the resource manager and
  turns the outcome into a string.

  Everything the method talks to lives in other modules: the prompt builder, the token
  counter, the language model, the resource manager and the logger. They are parameters of
  the model. Each of them may change the outside world and may raise, so a collaborator is
  a function from the world to an outcome and a new world, and every call is written to a
  log of events that the theorems can inspect.
\<close>

subsection \<open>Python strings\<close>

text \<open>
  A Python \<^verbatim>\<open>str\<close> is modelled by \<^typ>\<open>string\<close>. The method only concatenates
  strings, tests a prefix and replaces ASCII patterns, and all three commute with the UTF-8
  encoding, so nothing depends on whether an element is a byte or a code point.
\<close>

text \<open>
  \<^verbatim>\<open>s.replace(old, new)\<close>: every occurrence of \<open>old\<close> is replaced, scanning from the
  left, occurrences that overlap an occurrence already replaced are skipped, and the text
  put in is not scanned again. With the empty pattern Python puts \<open>new\<close> in front of
  every character and at the end.
\<close>

function replace :: "string \<Rightarrow> string \<Rightarrow> string \<Rightarrow> string" where
  "replace s old new =
     (if old = [] then new @ concat (map (\<lambda>c. c # new) s)
      else if s = [] then []
      else if prefix old s then new @ replace (drop (length old) s) old new
      else hd s # replace (tl s) old new)"
  by pat_completeness auto
termination
  by (relation "measure (\<lambda>(s, old, new). length s)") auto

declare replace.simps [simp del]

text \<open>\<^verbatim>\<open>s.startswith(p)\<close>\<close>

definition startswith :: "string \<Rightarrow> string \<Rightarrow> bool" where
  "startswith s p = prefix p s"

definition nl :: string where
  "nl = [CHR 0x0A]"

definition apostrophe :: string where
  "apostrophe = [CHR 0x27]"

subsection \<open>Exceptions, dictionaries and the log of calls\<close>

text \<open>
  A raised Python exception: whether its class derives from \<^verbatim>\<open>Exception\<close> (the classes
  that derive from \<^verbatim>\<open>BaseException\<close> only, such as \<^verbatim>\<open>KeyboardInterrupt\<close> and
  \<^verbatim>\<open>SystemExit\<close>, do not), the name of its class, and what \<^verbatim>\<open>str(e)\<close> does:
  \<^verbatim>\<open>__str__\<close> is code of the class of the exception, so it returns a string (\<open>Inr\<close>)
  or raises in its turn (\<open>Inl\<close>).
\<close>

datatype py_exc =
  PyExc (is_Exception: bool) (exc_class: string) (exc_str: "py_exc + string")

text \<open>A dictionary with string keys and string values, as the chat messages and the
  answer of the language model are.\<close>

type_synonym dict = "(string \<times> string) list"

text \<open>One entry of the log for every call of a collaborator: the arguments and the
  outcome, \<open>Inl\<close> for a raised exception and \<open>Inr\<close> for a returned value.\<close>

datatype event =
    EvAddListItems "string list" "py_exc + string"
  | EvGetModel "py_exc + string"
  | EvCountMessageTokens "dict list" string "py_exc + int"
  | EvTokenLimit string "py_exc + int"
  | EvChatCompletion "dict list" int "py_exc + dict"
  | EvWriteFile string string "py_exc + string"
  | EvLoggerError py_exc "py_exc + unit"

record 'w st =
  world :: 'w
  calls :: "event list"

definition fresh :: "'w \<Rightarrow> 'w st" where
  "fresh w = \<lparr>world = w, calls = []\<rparr>"

type_synonym ('w, 'a) collaborator = "'w \<Rightarrow> (py_exc + 'a) \<times> 'w"

type_synonym ('w, 'a) py = "'w st \<Rightarrow> (py_exc + 'a) \<times> 'w st"

definition py_return :: "'a \<Rightarrow> ('w, 'a) py" where
  "py_return x s = (Inr x, s)"

definition py_raise :: "py_exc \<Rightarrow> ('w, 'a) py" where
  "py_raise e s = (Inl e, s)"

text \<open>Sequencing: an exception of the first statement skips the rest.\<close>

definition py_bind :: "('w, 'a) py \<Rightarrow> ('a \<Rightarrow> ('w, 'b) py) \<Rightarrow> ('w, 'b) py" where
  "py_bind m k s = (case m s of (Inl e, s') \<Rightarrow> (Inl e, s') | (Inr x, s') \<Rightarrow> k x s')"

text \<open>Calling a collaborator: it acts on the world, and the call is logged with its outcome.\<close>

definition invoke :: "((py_exc + 'a) \<Rightarrow> event) \<Rightarrow> ('w, 'a) collaborator \<Rightarrow> ('w, 'a) py" where
  "invoke ev f s =
     (case f (world s) of (r, w') \<Rightarrow> (r, \<lparr>world = w', calls = calls s @ [ev r]\<rparr>))"

text \<open>\<^verbatim>\<open>d[key]\<close> raises \<^verbatim>\<open>KeyError\<close> on a missing key; \<^verbatim>\<open>str\<close> of a
  \<^verbatim>\<open>KeyError\<close> is the \<^verbatim>\<open>repr\<close> of the key.\<close>

definition key_error :: "string \<Rightarrow> py_exc" where
  "key_error k = PyExc True ''KeyError'' (Inr (apostrophe @ k @ apostrophe))"

definition dict_getitem :: "dict \<Rightarrow> string \<Rightarrow> ('w, string) py" where
  "dict_getitem d k = (case map_of d k of None \<Rightarrow> py_raise (key_error k) | Some v \<Rightarrow> py_return v)"

text \<open>An attribute looked up on \<^verbatim>\<open>None\<close>.\<close>

definition none_attribute_error :: "string \<Rightarrow> py_exc" where
  "none_attribute_error a =
     PyExc True ''AttributeError''
       (Inr (apostrophe @ ''NoneType'' @ apostrophe @ '' object has no attribute '' @
             apostrophe @ a @ apostrophe))"

subsection \<open>The collaborators\<close>

text \<open>\<^verbatim>\<open>BaseLlm\<close>: the two methods the tool calls.\<close>

record 'w base_llm =
  get_model :: "('w, string) collaborator"
  chat_completion :: "dict list \<Rightarrow> int \<Rightarrow> ('w, dict) collaborator"

text \<open>\<^verbatim>\<open>ResourceManager\<close>\<close>

record 'w resource_manager_obj =
  write_file :: "string \<Rightarrow> string \<Rightarrow> ('w, string) collaborator"

text \<open>The fields of \<^verbatim>\<open>WriteSpecTool\<close> that \<^verbatim>\<open>_execute\<close> reads. Both \<open>llm\<close> and
  \<open>resource_manager\<close> are declared \<^verbatim>\<open>Optional\<close> with default \<^verbatim>\<open>None\<close>.\<close>

record 'w write_spec_tool =
  llm :: "'w base_llm option"
  goals :: "string list"
  resource_manager :: "'w resource_manager_obj option"

text \<open>
  The functions of other modules: \<^verbatim>\<open>AgentPromptBuilder.add_list_items_to_string\<close>,
  \<^verbatim>\<open>TokenCounter.count_message_tokens\<close>, \<^verbatim>\<open>TokenCounter.token_limit\<close> and
  \<^verbatim>\<open>logger.error\<close>. Each of them may raise, the logger too.
\<close>

record 'w modules =
  add_list_items_to_string :: "string list \<Rightarrow> ('w, string) collaborator"
  count_message_tokens :: "dict list \<Rightarrow> string \<Rightarrow> ('w, int) collaborator"
  token_limit :: "string \<Rightarrow> ('w, int) collaborator"
  logger_error :: "py_exc \<Rightarrow> ('w, unit) collaborator"

subsection \<open>The method\<close>

text \<open>The string literal of lines 67 to 79, with its indentation.\<close>

definition prompt_template :: string where
  "prompt_template =
     ''You are a super smart developer who has been asked to make a specification for a program.'' @ nl @
     ''        '' @ nl @
     ''            Your high-level goal is:'' @ nl @
     ''            {goals}'' @ nl @
     ''        '' @ nl @
     ''            Please keep in mind the following when creating the specification:'' @ nl @
     ''            1. Be super explicit about what the program should do, which features it should have, and give details about anything that might be unclear.'' @ nl @
     ''            2. Lay out the names of the core classes, functions, methods that will be necessary, as well as a quick comment on their purpose.'' @ nl @
     ''            3. List all non-standard dependencies that will have to be used.'' @ nl @
     ''        '' @ nl @
     ''            Write a specification for the following task:'' @ nl @
     ''            {task}'' @ nl @
     ''            ''"

text \<open>
  The template read as five pieces: the text before the placeholder of the goals, that
  placeholder, the text between the two placeholders, the placeholder of the task, and the
  text after it.
\<close>

definition prompt_head :: string where
  "prompt_head =
     ''You are a super smart developer who has been asked to make a specification for a program.'' @ nl @
     ''        '' @ nl @
     ''            Your high-level goal is:'' @ nl @
     ''            ''"

definition prompt_middle :: string where
  "prompt_middle =
     nl @
     ''        '' @ nl @
     ''            Please keep in mind the following when creating the specification:'' @ nl @
     ''            1. Be super explicit about what the program should do, which features it should have, and give details about anything that might be unclear.'' @ nl @
     ''            2. Lay out the names of the core classes, functions, methods that will be necessary, as well as a quick comment on their purpose.'' @ nl @
     ''            3. List all non-standard dependencies that will have to be used.'' @ nl @
     ''        '' @ nl @
     ''            Write a specification for the following task:'' @ nl @
     ''            ''"

definition prompt_tail :: string where
  "prompt_tail = nl @ ''            ''"

text \<open>Lines 80 and 81: the two replacements, in this order.\<close>

definition fill_prompt :: "string \<Rightarrow> string \<Rightarrow> string" where
  "fill_prompt rendered_goals task_description =
     replace (replace prompt_template ''{goals}'' rendered_goals) ''{task}'' task_description"

text \<open>Line 82\<close>

definition system_messages :: "string \<Rightarrow> dict list" where
  "system_messages prompt = [[(''role'', ''system''), (''content'', prompt)]]"

definition success_suffix :: string where
  "success_suffix = ''Specification generated and saved successfully''"

text \<open>\<^verbatim>\<open>self.llm.get_model()\<close>\<close>

definition llm_get_model :: "'w write_spec_tool \<Rightarrow> ('w, string) py" where
  "llm_get_model tool =
     (case llm tool of
        None \<Rightarrow> py_raise (none_attribute_error ''get_model'')
      | Some l \<Rightarrow> invoke EvGetModel (get_model l))"

text \<open>\<^verbatim>\<open>self.llm.chat_completion(messages, max_tokens=...)\<close>\<close>

definition llm_chat_completion :: "'w write_spec_tool \<Rightarrow> dict list \<Rightarrow> int \<Rightarrow> ('w, dict) py" where
  "llm_chat_completion tool messages max_tokens =
     (case llm tool of
        None \<Rightarrow> py_raise (none_attribute_error ''chat_completion'')
      | Some l \<Rightarrow> invoke (EvChatCompletion messages max_tokens) (chat_completion l messages max_tokens))"

text \<open>
  Line 89, \<^verbatim>\<open>self.resource_manager.write_file(spec_file_name, result["content"])\<close>:
  Python evaluates the callee first, so a missing resource manager is reported before a
  missing key.
\<close>

definition rm_write_file :: "'w write_spec_tool \<Rightarrow> string \<Rightarrow> dict \<Rightarrow> ('w, string) py" where
  "rm_write_file tool spec_file_name result =
     (case resource_manager tool of
        None \<Rightarrow> py_raise (none_attribute_error ''write_file'')
      | Some rm \<Rightarrow>
          py_bind (dict_getitem result ''content'') (\<lambda>content.
            invoke (EvWriteFile spec_file_name content) (write_file rm spec_file_name content)))"

text \<open>The body of the \<^verbatim>\<open>try\<close>, lines 67 to 93.\<close>

definition try_body ::
  "'w write_spec_tool \<Rightarrow> 'w modules \<Rightarrow> string \<Rightarrow> string \<Rightarrow> ('w, string) py" where
  "try_body tool env task_description spec_file_name =
     py_bind (invoke (EvAddListItems (goals tool)) (add_list_items_to_string env (goals tool)))
       (\<lambda>rendered_goals.
     let prompt = fill_prompt rendered_goals task_description;
         messages = system_messages prompt
     in
     py_bind (llm_get_model tool) (\<lambda>model1.
     py_bind (invoke (EvCountMessageTokens messages model1) (count_message_tokens env messages model1))
       (\<lambda>total_tokens.
     py_bind (llm_get_model tool) (\<lambda>model2.
     py_bind (invoke (EvTokenLimit model2) (token_limit env model2)) (\<lambda>limit.
     py_bind (llm_chat_completion tool messages (limit - total_tokens - 100)) (\<lambda>result.
     py_bind (rm_write_file tool spec_file_name result) (\<lambda>write_result.
       if \<not> startswith write_result ''Error''
       then py_bind (dict_getitem result ''content'') (\<lambda>content.
              py_return (content @ success_suffix))
       else py_return write_result)))))))"

text \<open>
  Lines 96 and 97, the block of the handler: \<^verbatim>\<open>logger.error(e)\<close>, then the
  f-string, which calls \<^verbatim>\<open>str(e)\<close>. Nothing protects the two: an exception of the
  logger or of \<^verbatim>\<open>__str__\<close> leaves the method.
\<close>

definition handler :: "'w modules \<Rightarrow> py_exc \<Rightarrow> ('w, string) py" where
  "handler env e =
     py_bind (invoke (EvLoggerError e) (logger_error env e)) (\<lambda>_.
       case exc_str e of
         Inl e' \<Rightarrow> py_raise e'
       | Inr rendered \<Rightarrow> py_return (''Error generating specification: '' @ rendered))"

text \<open>
  The method (named \<^verbatim>\<open>_execute\<close> in the source): \<^verbatim>\<open>except Exception as e\<close> handles
  the exceptions whose class derives from \<^verbatim>\<open>Exception\<close>; any other exception leaves
  the method.
\<close>

definition execute ::
  "'w write_spec_tool \<Rightarrow> 'w modules \<Rightarrow> string \<Rightarrow> string \<Rightarrow> ('w, string) py" where
  "execute tool env task_description spec_file_name s =
     (case try_body tool env task_description spec_file_name s of
        (Inr v, s') \<Rightarrow> (Inr v, s')
      | (Inl e, s') \<Rightarrow> if is_Exception e then handler env e s' else (Inl e, s'))"

text \<open>One invocation, started with an empty log: what the body of the \<^verbatim>\<open>try\<close> gives,
  what the method gives back and what it called.\<close>

definition body_outcome ::
  "'w write_spec_tool \<Rightarrow> 'w modules \<Rightarrow> string \<Rightarrow> string \<Rightarrow> 'w \<Rightarrow> py_exc + string" where
  "body_outcome tool env task_description spec_file_name w =
     fst (try_body tool env task_description spec_file_name (fresh w))"

definition outcome ::
  "'w write_spec_tool \<Rightarrow> 'w modules \<Rightarrow> string \<Rightarrow> string \<Rightarrow> 'w \<Rightarrow> py_exc + string" where
  "outcome tool env task_description spec_file_name w =
     fst (execute tool env task_description spec_file_name (fresh w))"

definition call_log ::
  "'w write_spec_tool \<Rightarrow> 'w modules \<Rightarrow> string \<Rightarrow> string \<Rightarrow> 'w \<Rightarrow> event list" where
  "call_log tool env task_description spec_file_name w =
     calls (snd (execute tool env task_description spec_file_name (fresh w)))"

subsection \<open>Reading the log\<close>

text \<open>The exception that a logged call of the body of the \<^verbatim>\<open>try\<close> raised, if it
  raised. The call of the logger belongs to the handler, not to the body.\<close>

fun raised :: "event \<Rightarrow> py_exc option" where
  "raised (EvAddListItems items (Inl e)) = Some e"
| "raised (EvGetModel (Inl e)) = Some e"
| "raised (EvCountMessageTokens messages model (Inl e)) = Some e"
| "raised (EvTokenLimit model (Inl e)) = Some e"
| "raised (EvChatCompletion messages max_tokens (Inl e)) = Some e"
| "raised (EvWriteFile name text (Inl e)) = Some e"
| "raised ev = None"

fun is_chat_completion :: "event \<Rightarrow> bool" where
  "is_chat_completion (EvChatCompletion messages max_tokens r) = True"
| "is_chat_completion ev = False"

fun is_write_file :: "event \<Rightarrow> bool" where
  "is_write_file (EvWriteFile name text r) = True"
| "is_write_file ev = False"

subsection \<open>Test doubles\<close>

text \<open>
  Collaborators with fixed answers, as a unit test of the tool would mock them. The world
  is \<^typ>\<open>unit\<close>: these collaborators keep no state.
\<close>

definition mock_modules :: "int \<Rightarrow> int \<Rightarrow> unit modules" where
  "mock_modules total_tokens limit =
     \<lparr>add_list_items_to_string = (\<lambda>items w. (Inr (concat items), w)),
      count_message_tokens = (\<lambda>messages model w. (Inr total_tokens, w)),
      token_limit = (\<lambda>model w. (Inr limit, w)),
      logger_error = (\<lambda>e w. (Inr (), w))\<rparr>"

definition mock_llm :: "py_exc + dict \<Rightarrow> unit base_llm" where
  "mock_llm reply =
     \<lparr>get_model = (\<lambda>w. (Inr ''gpt-4'', w)),
      chat_completion = (\<lambda>messages max_tokens w. (reply, w))\<rparr>"

definition mock_resource_manager :: "py_exc + string \<Rightarrow> unit resource_manager_obj" where
  "mock_resource_manager written = \<lparr>write_file = (\<lambda>name text w. (written, w))\<rparr>"

definition mock_tool :: "py_exc + dict \<Rightarrow> py_exc + string \<Rightarrow> unit write_spec_tool" where
  "mock_tool reply written =
     \<lparr>llm = Some (mock_llm reply),
      goals = [''Build a todo app''],
      resource_manager = Some (mock_resource_manager written)\<rparr>"

definition keyboard_interrupt :: py_exc where
  "keyboard_interrupt = PyExc False ''KeyboardInterrupt'' (Inr [])"

definition connection_error :: py_exc where
  "connection_error = PyExc True ''ConnectionError'' (Inr ''connection refused'')"

text \<open>An exception whose \<^verbatim>\<open>__str__\<close> raises, and a logger whose handler fails.\<close>

definition unprintable_error :: py_exc where
  "unprintable_error =
     PyExc True ''UnprintableError''
       (Inl (PyExc True ''TypeError'' (Inr ''__str__ returned non-string'')))"

definition logging_failure :: py_exc where
  "logging_failure = PyExc True ''OSError'' (Inr ''log file is not writable'')"

definition broken_logger_modules :: "int \<Rightarrow> int \<Rightarrow> unit modules" where
  "broken_logger_modules total_tokens limit =
     (mock_modules total_tokens limit)\<lparr>logger_error := (\<lambda>e w. (Inl logging_failure, w))\<rparr>"


section \<open>Properties\<close>

subsection \<open>Sequencing and calls\<close>

lemma invoke_bind:
  "py_bind (invoke ev f) k s =
     (case f (world s) of
        (Inl e, w') \<Rightarrow> (Inl e, \<lparr>world = w', calls = calls s @ [ev (Inl e)]\<rparr>)
      | (Inr x, w') \<Rightarrow> k x \<lparr>world = w', calls = calls s @ [ev (Inr x)]\<rparr>)"
  by (simp add: py_bind_def invoke_def split: prod.splits sum.splits)

lemma raise_bind: "py_bind (py_raise e) k s = (Inl e, s)"
  by (simp add: py_bind_def py_raise_def)

lemma return_bind: "py_bind (py_return x) k s = k x s"
  by (simp add: py_bind_def py_return_def)

lemma py_bind_assoc: "py_bind (py_bind m f) k = py_bind m (\<lambda>x. py_bind (f x) k)"
  by (rule ext) (simp add: py_bind_def split: prod.splits sum.splits)

subsection \<open>Every run of the body\<close>

text \<open>
  The body of the \<^verbatim>\<open>try\<close> is a straight line, so a run started with an empty log
  ends in one of twelve ways: at one of the seven calls, which raised, at an attribute of
  a missing language model or resource manager, at a missing key, or at one of the two
  \<^verbatim>\<open>return\<close> statements. In each case the log is known in full.
\<close>

lemma try_body_shape:
  assumes "try_body tool env task file (fresh w) = (r, s')"
  shows
   "(\<exists>e. calls s' = [EvAddListItems (goals tool) (Inl e)] \<and> r = Inl e)
  \<or> (\<exists>rg. calls s' = [EvAddListItems (goals tool) (Inr rg)] \<and> llm tool = None
         \<and> r = Inl (none_attribute_error ''get_model''))
  \<or> (\<exists>rg e. calls s' = [EvAddListItems (goals tool) (Inr rg), EvGetModel (Inl e)] \<and> r = Inl e)
  \<or> (\<exists>rg m1 e. calls s' = [EvAddListItems (goals tool) (Inr rg), EvGetModel (Inr m1),
          EvCountMessageTokens (system_messages (fill_prompt rg task)) m1 (Inl e)] \<and> r = Inl e)
  \<or> (\<exists>rg m1 total e. calls s' = [EvAddListItems (goals tool) (Inr rg), EvGetModel (Inr m1),
          EvCountMessageTokens (system_messages (fill_prompt rg task)) m1 (Inr total),
          EvGetModel (Inl e)] \<and> r = Inl e)
  \<or> (\<exists>rg m1 total m2 e. calls s' = [EvAddListItems (goals tool) (Inr rg), EvGetModel (Inr m1),
          EvCountMessageTokens (system_messages (fill_prompt rg task)) m1 (Inr total),
          EvGetModel (Inr m2), EvTokenLimit m2 (Inl e)] \<and> r = Inl e)
  \<or> (\<exists>rg m1 total m2 limit e. calls s' = [EvAddListItems (goals tool) (Inr rg), EvGetModel (Inr m1),
          EvCountMessageTokens (system_messages (fill_prompt rg task)) m1 (Inr total),
          EvGetModel (Inr m2), EvTokenLimit m2 (Inr limit),
          EvChatCompletion (system_messages (fill_prompt rg task)) (limit - total - 100) (Inl e)]
         \<and> r = Inl e)
  \<or> (\<exists>rg m1 total m2 limit d. calls s' = [EvAddListItems (goals tool) (Inr rg), EvGetModel (Inr m1),
          EvCountMessageTokens (system_messages (fill_prompt rg task)) m1 (Inr total),
          EvGetModel (Inr m2), EvTokenLimit m2 (Inr limit),
          EvChatCompletion (system_messages (fill_prompt rg task)) (limit - total - 100) (Inr d)]
         \<and> resource_manager tool = None \<and> r = Inl (none_attribute_error ''write_file''))
  \<or> (\<exists>rg m1 total m2 limit d. calls s' = [EvAddListItems (goals tool) (Inr rg), EvGetModel (Inr m1),
          EvCountMessageTokens (system_messages (fill_prompt rg task)) m1 (Inr total),
          EvGetModel (Inr m2), EvTokenLimit m2 (Inr limit),
          EvChatCompletion (system_messages (fill_prompt rg task)) (limit - total - 100) (Inr d)]
         \<and> resource_manager tool \<noteq> None \<and> map_of d ''content'' = None
         \<and> r = Inl (key_error ''content''))
  \<or> (\<exists>rg m1 total m2 limit d c e. calls s' = [EvAddListItems (goals tool) (Inr rg), EvGetModel (Inr m1),
          EvCountMessageTokens (system_messages (fill_prompt rg task)) m1 (Inr total),
          EvGetModel (Inr m2), EvTokenLimit m2 (Inr limit),
          EvChatCompletion (system_messages (fill_prompt rg task)) (limit - total - 100) (Inr d),
          EvWriteFile file c (Inl e)]
         \<and> resource_manager tool \<noteq> None \<and> map_of d ''content'' = Some c \<and> r = Inl e)
  \<or> (\<exists>rg m1 total m2 limit d c wr. calls s' = [EvAddListItems (goals tool) (Inr rg), EvGetModel (Inr m1),
          EvCountMessageTokens (system_messages (fill_prompt rg task)) m1 (Inr total),
          EvGetModel (Inr m2), EvTokenLimit m2 (Inr limit),
          EvChatCompletion (system_messages (fill_prompt rg task)) (limit - total - 100) (Inr d),
          EvWriteFile file c (Inr wr)]
         \<and> resource_manager tool \<noteq> None \<and> map_of d ''content'' = Some c
         \<and> startswith wr ''Error'' \<and> r = Inr wr)
  \<or> (\<exists>rg m1 total m2 limit d c wr. calls s' = [EvAddListItems (goals tool) (Inr rg), EvGetModel (Inr m1),
          EvCountMessageTokens (system_messages (fill_prompt rg task)) m1 (Inr total),
          EvGetModel (Inr m2), EvTokenLimit m2 (Inr limit),
          EvChatCompletion (system_messages (fill_prompt rg task)) (limit - total - 100) (Inr d),
          EvWriteFile file c (Inr wr)]
         \<and> resource_manager tool \<noteq> None \<and> map_of d ''content'' = Some c
         \<and> \<not> startswith wr ''Error'' \<and> r = Inr (c @ success_suffix))"
  using assms
  unfolding try_body_def Let_def llm_get_model_def llm_chat_completion_def rm_write_file_def
    dict_getitem_def
  by (auto simp: py_bind_assoc invoke_bind raise_bind return_bind py_return_def fresh_def
       split: option.splits prod.splits sum.splits if_splits)

text \<open>The method adds the handler to the body.\<close>

lemma execute_of_body:
  assumes "try_body tool env task file (fresh w) = (r, s')"
  shows "outcome tool env task file w =
           (case r of
              Inr v \<Rightarrow> Inr v
            | Inl e \<Rightarrow>
                if is_Exception e
                then (case fst (logger_error env e (world s')) of
                        Inl e' \<Rightarrow> Inl e'
                      | Inr u \<Rightarrow>
                          (case exc_str e of
                             Inl e' \<Rightarrow> Inl e'
                           | Inr rendered \<Rightarrow>
                               Inr (''Error generating specification: '' @ rendered)))
                else Inl e)"
    and "call_log tool env task file w =
           (case r of
              Inr v \<Rightarrow> calls s'
            | Inl e \<Rightarrow>
                if is_Exception e
                then calls s' @ [EvLoggerError e (fst (logger_error env e (world s')))]
                else calls s')"
    and "body_outcome tool env task file w = r"
  using assms
  by (auto simp: outcome_def call_log_def body_outcome_def execute_def handler_def invoke_bind
        py_raise_def py_return_def split: sum.splits prod.splits)

text \<open>What the handler does not protect.\<close>

lemma execute_logger_raises:
  assumes "try_body tool env task file (fresh w) = (Inl e, s')"
    and "is_Exception e"
    and "fst (logger_error env e (world s')) = Inl e'"
  shows "outcome tool env task file w = Inl e'"
  using assms(2,3) by (simp add: execute_of_body [OF assms(1)])

lemma execute_str_raises:
  assumes "try_body tool env task file (fresh w) = (Inl e, s')"
    and "is_Exception e"
    and "fst (logger_error env e (world s')) = Inr u"
    and "exc_str e = Inl e'"
  shows "outcome tool env task file w = Inl e'"
  using assms(2,3,4) by (simp add: execute_of_body [OF assms(1)])

subsection \<open>Replacement\<close>

lemma replace_empty: "old \<noteq> [] \<Longrightarrow> replace [] old new = []"
  by (simp add: replace.simps)

lemma replace_match: "old \<noteq> [] \<Longrightarrow> replace (old @ t) old new = new @ replace t old new"
  by (subst replace.simps) simp

lemma replace_skip:
  "old \<noteq> [] \<Longrightarrow> \<not> prefix old (c # t) \<Longrightarrow> replace (c # t) old new = c # replace t old new"
  by (subst replace.simps) simp

text \<open>Python gives the same: occurrences are taken from the left and do not overlap, and
  the empty pattern matches between all characters.\<close>

lemma replace_leftmost_example: "replace ''aaa'' ''aa'' ''b'' = ''ba''"
  by (simp add: replace.simps)

lemma replace_empty_pattern_example: "replace ''abc'' [] ''X'' = ''XaXbXcX''"
  by (simp add: replace.simps)

text \<open>Text without the first character of the pattern is copied.\<close>

lemma replace_without_first:
  "a \<notin> set s \<Longrightarrow> replace (s @ t) (a # as) new = s @ replace t (a # as) new"
  by (induction s) (simp_all add: replace_skip)

lemma replace_absent: "a \<notin> set s \<Longrightarrow> replace s (a # as) new = s"
  using replace_without_first [of a s "[]" as new] by (simp add: replace_empty)


text \<open>No occurrence of the pattern runs across a character that the pattern does not have.\<close>

lemma prefix_before_foreign:
  assumes "b \<notin> set old"
  shows "prefix old (s @ b # t) \<longleftrightarrow> prefix old s"
proof
  assume "prefix old (s @ b # t)"
  then consider "prefix old s" | us where "old = s @ us" "prefix us (b # t)"
    by (auto simp: prefix_append)
  then show "prefix old s"
  proof cases
    case 1
    then show ?thesis .
  next
    case 2
    with assms have "us = []"
      by (cases us) auto
    with 2 show ?thesis by simp
  qed
next
  assume "prefix old s"
  then show "prefix old (s @ b # t)"
    by (rule prefix_prefix)
qed

lemma replace_boundary:
  assumes "old \<noteq> []" and "b \<notin> set old"
  shows "replace (s @ b # t) old new = replace s old new @ replace (b # t) old new"
  using assms
proof (induction s old new rule: replace.induct)
  case (1 s old new)
  show ?case
  proof (cases "s = []")
    case True
    with 1 show ?thesis by (simp add: replace_empty)
  next
    case False
    then obtain c cs where s: "s = c # cs" by (cases s) auto
    show ?thesis
    proof (cases "prefix old s")
      case True
      then obtain rest where rest: "s = old @ rest"
        by (auto simp: prefix_def)
      have "replace (drop (length old) s @ b # t) old new =
            replace (drop (length old) s) old new @ replace (b # t) old new"
        using 1 False True by simp
      with rest 1 show ?thesis
        by (simp add: replace_match)
    next
      case np: False
      with 1 have np': "\<not> prefix old ((c # cs) @ b # t)"
        using prefix_before_foreign [of b old s t] s by simp
      have "replace (tl s @ b # t) old new = replace (tl s) old new @ replace (b # t) old new"
        using 1 False np by simp
      with s np np' 1 show ?thesis
        by (simp add: replace_skip)
    qed
  qed
qed

subsection \<open>The template\<close>

lemma template_pieces:
  "prompt_template = prompt_head @ ''{goals}'' @ prompt_middle @ ''{task}'' @ prompt_tail"
  by (simp add: prompt_template_def prompt_head_def prompt_middle_def prompt_tail_def)

lemma head_no_brace: "CHR ''{'' \<notin> set prompt_head"
  by (simp add: prompt_head_def nl_def)

lemma middle_no_brace: "CHR ''{'' \<notin> set prompt_middle"
  by (simp add: prompt_middle_def nl_def)

lemma tail_no_brace: "CHR ''{'' \<notin> set prompt_tail"
  by (simp add: prompt_tail_def nl_def)

lemma middle_starts: "\<exists>rest. prompt_middle = CHR 0x0A # rest"
  by (simp add: prompt_middle_def nl_def)

text \<open>Line 80: the template has one placeholder of the goals.\<close>

lemma goals_replaced:
  "replace prompt_template ''{goals}'' rg =
     prompt_head @ rg @ prompt_middle @ ''{task}'' @ prompt_tail"
proof -
  have "replace (''{task}'' @ prompt_tail) ''{goals}'' rg = ''{task}'' @ prompt_tail"
    using replace_absent [OF tail_no_brace, of "''goals}''" rg]
    by (simp add: replace_skip replace_absent)
  then show ?thesis
    using replace_without_first [OF head_no_brace, of _ "''goals}''" rg]
      replace_without_first [OF middle_no_brace, of _ "''goals}''" rg]
      replace_match [of "''{goals}''" _ rg]
    by (simp add: template_pieces)
qed

text \<open>Line 81 runs over the result of line 80, the rendered goals included.\<close>

lemma task_replaced:
  "replace (prompt_head @ rg @ prompt_middle @ ''{task}'' @ prompt_tail) ''{task}'' task =
     prompt_head @ replace rg ''{task}'' task @ prompt_middle @ task @ prompt_tail"
proof -
  obtain rest where m: "prompt_middle = CHR 0x0A # rest"
    using middle_starts by blast
  have t: "replace prompt_tail ''{task}'' task = prompt_tail"
    using replace_absent [OF tail_no_brace, of "''task}''" task] by simp
  have "replace (prompt_middle @ ''{task}'' @ prompt_tail) ''{task}'' task
          = prompt_middle @ task @ prompt_tail"
    using replace_without_first [OF middle_no_brace, of "''{task}'' @ prompt_tail" "''task}''" task]
      replace_match [of "''{task}''" prompt_tail task] t
    by simp
  moreover have "replace (rg @ prompt_middle @ ''{task}'' @ prompt_tail) ''{task}'' task
          = replace rg ''{task}'' task
            @ replace (prompt_middle @ ''{task}'' @ prompt_tail) ''{task}'' task"
    using replace_boundary [of "''{task}''" "CHR 0x0A" rg "rest @ ''{task}'' @ prompt_tail" task]
    by (simp add: m)
  ultimately show ?thesis
    using replace_without_first
      [OF head_no_brace, of "rg @ prompt_middle @ ''{task}'' @ prompt_tail" "''task}''" task]
    by simp
qed

text \<open>Goals that mention "{task}" and a task that mentions "{goals}".\<close>

lemma fill_prompt_example:
  "fill_prompt ''1. finish {task}'' ''port {goals} to Rust'' =
     prompt_head @ ''1. finish port {goals} to Rust'' @ prompt_middle
     @ ''port {goals} to Rust'' @ prompt_tail"
  unfolding fill_prompt_def goals_replaced task_replaced
  by (simp add: replace.simps)

subsection \<open>The doubles at work\<close>

lemmas mock_defs = mock_tool_def mock_modules_def mock_llm_def mock_resource_manager_def

lemmas run_defs = execute_def try_body_def Let_def llm_get_model_def llm_chat_completion_def
  rm_write_file_def dict_getitem_def py_bind_assoc invoke_bind raise_bind return_bind
  py_return_def fresh_def

text \<open>A run in which every collaborator returns.\<close>

lemma mock_log_written:
  "call_log (mock_tool (Inr [(''content'', ''SPEC'')]) (Inr written)) (mock_modules tokens limit)
     task file () =
   [EvAddListItems [''Build a todo app''] (Inr ''Build a todo app''),
    EvGetModel (Inr ''gpt-4''),
    EvCountMessageTokens (system_messages (fill_prompt ''Build a todo app'' task)) ''gpt-4''
      (Inr tokens),
    EvGetModel (Inr ''gpt-4''),
    EvTokenLimit ''gpt-4'' (Inr limit),
    EvChatCompletion (system_messages (fill_prompt ''Build a todo app'' task))
      (limit - tokens - 100) (Inr [(''content'', ''SPEC'')]),
    EvWriteFile file ''SPEC'' (Inr written)]"
  by (simp add: call_log_def mock_defs run_defs)

text \<open>A run in which the chat completion raises.\<close>

lemma mock_body_chat_raises:
  "try_body (mock_tool (Inl e) written) (mock_modules tokens limit) task file (fresh ()) =
   (Inl e,
    \<lparr>world = (),
     calls =
       [EvAddListItems [''Build a todo app''] (Inr ''Build a todo app''),
        EvGetModel (Inr ''gpt-4''),
        EvCountMessageTokens (system_messages (fill_prompt ''Build a todo app'' task)) ''gpt-4''
          (Inr tokens),
        EvGetModel (Inr ''gpt-4''),
        EvTokenLimit ''gpt-4'' (Inr limit),
        EvChatCompletion (system_messages (fill_prompt ''Build a todo app'' task))
          (limit - tokens - 100) (Inl e)]\<rparr>)"
  by (simp add: mock_defs run_defs)



text \<open>The handler left by an exception: the logger fails, or \<^verbatim>\<open>__str__\<close> does.\<close>

lemma broken_logger_example:
  "outcome (mock_tool (Inl connection_error) (Inr ''File written'')) (broken_logger_modules 10 4096)
     ''write a parser'' ''spec.md'' () = Inl logging_failure"
proof -
  have body: "try_body (mock_tool (Inl connection_error) (Inr ''File written''))
                (broken_logger_modules 10 4096) ''write a parser'' ''spec.md'' (fresh ()) =
              (Inl connection_error,
               snd (try_body (mock_tool (Inl connection_error) (Inr ''File written''))
                      (broken_logger_modules 10 4096) ''write a parser'' ''spec.md'' (fresh ())))"
    by (simp add: broken_logger_modules_def mock_defs run_defs)
  show ?thesis
    by (rule execute_logger_raises [OF body])
      (simp_all add: connection_error_def broken_logger_modules_def mock_modules_def)
qed

lemma unprintable_example:
  "outcome (mock_tool (Inl unprintable_error) (Inr ''File written'')) (mock_modules 10 4096)
     ''write a parser'' ''spec.md'' () =
   Inl (PyExc True ''TypeError'' (Inr ''__str__ returned non-string''))"
  by (rule execute_str_raises [OF mock_body_chat_raises])
    (simp_all add: unprintable_error_def mock_modules_def)

section \<open>The claims\<close>

text \<open>
  C1. Whatever the task description, the file name and the goals: when the chat completion
  returned a result whose content is \<open>c\<close> and the resource manager returned a string
  that does not start with "Error", the method returns \<open>c\<close> followed at once by
  "Specification generated and saved successfully".
\<close>

theorem execute_success:
  assumes "EvChatCompletion messages max_tokens (Inr d) \<in> set (call_log tool env task file w)"
    and "map_of d ''content'' = Some c"
    and "EvWriteFile name text (Inr wr) \<in> set (call_log tool env task file w)"
    and "\<not> startswith wr ''Error''"
  shows "outcome tool env task file w =
           Inr (c @ ''Specification generated and saved successfully'')"
proof -
  obtain r s' where body: "try_body tool env task file (fresh w) = (r, s')"
    by fastforce
  show ?thesis
    using try_body_shape [OF body] assms
    by (auto simp: execute_of_body [OF body] success_suffix_def split: if_splits)
qed

theorem execute_success_witness:
  "outcome (mock_tool (Inr [(''content'', ''SPEC'')]) (Inr ''File written''))
     (mock_modules 10 4096) ''write a parser'' ''spec.md'' () =
   Inr ''SPECSpecification generated and saved successfully''"
proof -
  let ?log = "call_log (mock_tool (Inr [(''content'', ''SPEC'')]) (Inr ''File written''))
                (mock_modules 10 4096) ''write a parser'' ''spec.md'' ()"
  have chat: "EvChatCompletion (system_messages (fill_prompt ''Build a todo app'' ''write a parser''))
                (4096 - 10 - 100) (Inr [(''content'', ''SPEC'')]) \<in> set ?log"
    by (simp add: mock_log_written)
  have content: "map_of [(''content'', ''SPEC'')] ''content'' = Some ''SPEC''"
    by simp
  have written: "EvWriteFile ''spec.md'' ''SPEC'' (Inr ''File written'') \<in> set ?log"
    by (simp add: mock_log_written)
  have ok: "\<not> startswith ''File written'' ''Error''"
    by (simp add: startswith_def)
  from execute_success [OF chat content written ok] show ?thesis
    by simp
qed

text \<open>
  C2. When the chat completion returned a result with content \<open>c\<close> and the resource
  manager returned the string \<open>wr\<close>, the method returns \<open>wr\<close> itself, with nothing of
  the content added, if \<open>wr\<close> starts with "Error", and the success string otherwise: the
  prefix test alone chooses the branch.
\<close>

theorem execute_writer_error:
  assumes "EvChatCompletion messages max_tokens (Inr d) \<in> set (call_log tool env task file w)"
    and "map_of d ''content'' = Some c"
    and "EvWriteFile name text (Inr wr) \<in> set (call_log tool env task file w)"
  shows "outcome tool env task file w =
           Inr (if startswith wr ''Error'' then wr
                else c @ ''Specification generated and saved successfully'')"
proof -
  obtain r s' where body: "try_body tool env task file (fresh w) = (r, s')"
    by fastforce
  show ?thesis
    using try_body_shape [OF body] assms
    by (auto simp: execute_of_body [OF body] success_suffix_def split: if_splits)
qed

theorem execute_writer_error_witness:
  "outcome (mock_tool (Inr [(''content'', ''SPEC'')]) (Inr ''Error: disk full''))
     (mock_modules 10 4096) ''write a parser'' ''spec.md'' () =
   Inr ''Error: disk full''"
proof -
  let ?log = "call_log (mock_tool (Inr [(''content'', ''SPEC'')]) (Inr ''Error: disk full''))
                (mock_modules 10 4096) ''write a parser'' ''spec.md'' ()"
  have chat: "EvChatCompletion (system_messages (fill_prompt ''Build a todo app'' ''write a parser''))
                (4096 - 10 - 100) (Inr [(''content'', ''SPEC'')]) \<in> set ?log"
    by (simp add: mock_log_written)
  have content: "map_of [(''content'', ''SPEC'')] ''content'' = Some ''SPEC''"
    by simp
  have written: "EvWriteFile ''spec.md'' ''SPEC'' (Inr ''Error: disk full'') \<in> set ?log"
    by (simp add: mock_log_written)
  from execute_writer_error [OF chat content written] show ?thesis
    by (simp add: startswith_def)
qed

text \<open>
  C3, as the code has it. The handler is \<^verbatim>\<open>except Exception\<close>, and its own two
  statements are not protected. When the body of the \<^verbatim>\<open>try\<close> raises an exception
  \<open>e\<close> whose class derives from \<^verbatim>\<open>Exception\<close>, wherever in the body, and
  \<^verbatim>\<open>logger.error(e)\<close> and \<^verbatim>\<open>str(e)\<close> return, the method returns
  "Error generating specification: " followed by \<^verbatim>\<open>str(e)\<close>. After the body stopped,
  only the logger is called, and every call of the body before its last one had returned:
  nothing is tried again. The last call of the body either raised \<open>e\<close> or returned, and
  then \<open>e\<close> comes from a lookup of the method itself (an attribute of \<^verbatim>\<open>None\<close>, a
  missing key).
\<close>

theorem execute_catches_Exception:
  assumes "try_body tool env task file (fresh w) = (Inl e, s')"
    and "is_Exception e"
    and "fst (logger_error env e (world s')) = Inr ()"
    and "exc_str e = Inr rendered"
  shows "outcome tool env task file w = Inr (''Error generating specification: '' @ rendered)
       \<and> call_log tool env task file w = calls s' @ [EvLoggerError e (Inr ())]
       \<and> list_all (\<lambda>ev. raised ev = None) (butlast (calls s'))
       \<and> raised (last (calls s')) \<in> {None, Some e}"
proof -
  note body = assms(1)
  have "list_all (\<lambda>ev. raised ev = None) (butlast (calls s'))
      \<and> raised (last (calls s')) \<in> {None, Some e}"
    using try_body_shape [OF body] by auto
  then show ?thesis
    using assms(2,3,4) by (simp add: execute_of_body [OF body])
qed

theorem execute_catches_Exception_witness:
  "outcome (mock_tool (Inl connection_error) (Inr ''File written'')) (mock_modules 10 4096)
     ''write a parser'' ''spec.md'' () =
   Inr ''Error generating specification: connection refused''"
proof -
  have exc: "is_Exception connection_error"
    by (simp add: connection_error_def)
  have logged: "fst (logger_error (mock_modules 10 4096) connection_error (world s)) = Inr ()" for s
    by (simp add: mock_modules_def)
  have rendered: "exc_str connection_error = Inr ''connection refused''"
    by (simp add: connection_error_def)
  from execute_catches_Exception [OF mock_body_chat_raises exc logged rendered] show ?thesis
    by simp
qed

text \<open>
  C3 as the specification words it, "no exception escapes", fails: a
  \<^verbatim>\<open>KeyboardInterrupt\<close> raised by the chat completion is not an \<^verbatim>\<open>Exception\<close>, the
  handler does not apply, and the exception leaves the method.
\<close>

theorem execute_interrupt_escapes:
  "try_body (mock_tool (Inl keyboard_interrupt) (Inr ''File written'')) (mock_modules 10 4096)
     ''write a parser'' ''spec.md'' (fresh ()) =
   (Inl keyboard_interrupt,
    \<lparr>world = (),
     calls =
       [EvAddListItems [''Build a todo app''] (Inr ''Build a todo app''),
        EvGetModel (Inr ''gpt-4''),
        EvCountMessageTokens
          (system_messages (fill_prompt ''Build a todo app'' ''write a parser'')) ''gpt-4'' (Inr 10),
        EvGetModel (Inr ''gpt-4''),
        EvTokenLimit ''gpt-4'' (Inr 4096),
        EvChatCompletion
          (system_messages (fill_prompt ''Build a todo app'' ''write a parser'')) 3986
          (Inl keyboard_interrupt)]\<rparr>)
   \<and> outcome (mock_tool (Inl keyboard_interrupt) (Inr ''File written'')) (mock_modules 10 4096)
       ''write a parser'' ''spec.md'' () = Inl keyboard_interrupt"
  by (simp add: mock_body_chat_raises execute_of_body [OF mock_body_chat_raises]
        keyboard_interrupt_def)






text \<open>
  C6. One invocation calls the chat completion at most once and the resource manager at
  most once, whatever the collaborators do.
\<close>

theorem calls_at_most_once:
  "length (filter is_chat_completion (call_log tool env task file w)) \<le> 1
   \<and> length (filter is_write_file (call_log tool env task file w)) \<le> 1"
proof -
  obtain res s' where body: "try_body tool env task file (fresh w) = (res, s')"
    by fastforce
  show ?thesis
    using try_body_shape [OF body]
    by (auto simp: execute_of_body [OF body] split: if_splits)
qed

text \<open>
  C7. When a call other than that of the resource manager raised (the rendering of the
  goals, the model, the token count, the token limit or the chat completion), the resource
  manager is not called in that run.
\<close>

theorem no_write_after_failure:
  assumes "ev \<in> set (call_log tool env task file w)"
    and "raised ev = Some e"
    and "\<not> is_write_file ev"
  shows "filter is_write_file (call_log tool env task file w) = []"
proof -
  obtain res s' where body: "try_body tool env task file (fresh w) = (res, s')"
    by fastforce
  show ?thesis
    using try_body_shape [OF body] assms
    by (auto simp: execute_of_body [OF body] split: if_splits)
qed

theorem no_write_after_failure_witness:
  "filter is_write_file
     (call_log (mock_tool (Inl connection_error) (Inr ''File written'')) (mock_modules 10 4096)
        ''write a parser'' ''spec.md'' ()) = []"
proof -
  let ?ev = "EvChatCompletion (system_messages (fill_prompt ''Build a todo app'' ''write a parser''))
               (4096 - 10 - 100) (Inl connection_error)"
  have "?ev \<in> set (call_log (mock_tool (Inl connection_error) (Inr ''File written''))
                      (mock_modules 10 4096) ''write a parser'' ''spec.md'' ())"
    by (simp add: execute_of_body [OF mock_body_chat_raises])
  moreover have "raised ?ev = Some connection_error"
    by simp
  moreover have "\<not> is_write_file ?ev"
    by simp
  ultimately show ?thesis
    by (rule no_write_after_failure)
qed

text \<open>
  C8. The prompt is the head of the template, the rendered goals in which every "{task}"
  has been replaced by the task description, the middle of the template, the task
  description as it is, and the tail of the template. So a "{task}" inside the rendered
  goals is replaced as well, and a "{goals}" inside the task description stays.
\<close>

theorem fill_prompt_order:
  "prompt_template = prompt_head @ ''{goals}'' @ prompt_middle @ ''{task}'' @ prompt_tail
   \<and> fill_prompt rendered_goals task_description =
       prompt_head @ replace rendered_goals ''{task}'' task_description
       @ prompt_middle @ task_description @ prompt_tail"
proof
  show "prompt_template = prompt_head @ ''{goals}'' @ prompt_middle @ ''{task}'' @ prompt_tail"
    by (rule template_pieces)
next
  have "fill_prompt rendered_goals task_description =
          replace (prompt_head @ rendered_goals @ prompt_middle @ ''{task}'' @ prompt_tail)
            ''{task}'' task_description"
    unfolding fill_prompt_def by (simp only: goals_replaced)
  also have "\<dots> = prompt_head @ replace rendered_goals ''{task}'' task_description
                  @ prompt_middle @ task_description @ prompt_tail"
    by (rule task_replaced)
  finally show "fill_prompt rendered_goals task_description =
                  prompt_head @ replace rendered_goals ''{task}'' task_description
                  @ prompt_middle @ task_description @ prompt_tail" .
qed




end
